theory Spec2Isabelle
  imports Complex_Main
begin

section \<open>The motion controller (MarlinController.h, MarlinController.cpp)\<close>

text \<open>
  The enumeration \<open>MarlinController::state\<close>, in the order of the header. The dispenser's
  own enumeration in main.cpp also has an enumerator \<open>idle\<close>; that one is written
  \<open>idle_machine\<close> below.
\<close>

datatype marlin_state =
    disconnected
  | idle
  | homingZ
  | zMoveStarted
  | zMoveWaitForComplete1
  | zMoveWaitForComplete2
  | zMoveCompleted
  | homingX
  | xHomed
  | moveStarted
  | moveWaitForComplete
  | moveCompleted
  | getPosition

text \<open>
  The fields of a \<open>MarlinController\<close> object. A \<open>double\<close> is modelled by the real number it
  stands for; the interval that the scheduler adds to the clock is rounded and converted as
  the machine does it (see \<open>interval_feed_time\<close>), the positions sent in motion commands
  are not. An \<open>int\<close> or \<open>time_t\<close> is modelled by the integer it stands for (the integer sums
  and products computed here stay within the machine ranges for the values the program
  handles). \<open>wire\<close> is not a field of the class: it records
  the lines that \<open>sendGCode\<close> has written to the serial port, oldest first, each without
  its line terminator. The reader thread's handle and its stop flag are not modelled; what
  is sent to \<open>std::cout\<close> and \<open>std::cerr\<close> is not modelled either.
\<close>

record marlin =
  marlinState :: marlin_state
  xPos :: real
  zPos :: real
  burnExtraOK :: bool
  marlinPort :: int
  wire :: "string list"

subsection \<open>The pieces of \<open>std::string\<close> the controller uses\<close>

text \<open>\<open>std::string::npos\<close>, the largest value of the 64-bit \<open>size_t\<close>.\<close>

definition npos :: nat where
  "npos = 2 ^ 64 - 1"

text \<open>Subtraction of two \<open>size_t\<close> values wraps around modulo \<open>2 ^ 64\<close>.\<close>

definition size_sub :: "nat \<Rightarrow> nat \<Rightarrow> nat" where
  "size_sub a b = (a + 2 ^ 64 - b mod 2 ^ 64) mod 2 ^ 64"

text \<open>
  \<open>find_at needle s i\<close> looks for the first place in \<open>s\<close> where \<open>needle\<close> starts, counting
  positions from \<open>i\<close> at the head of \<open>s\<close>; \<open>find_str s needle pos\<close> is then
  \<open>s.find(needle, pos)\<close>, and \<open>find_chr s c pos\<close> is \<open>s.find(c, pos)\<close>. The answer is
  \<open>npos\<close> when there is no such place.
\<close>

fun starts_with :: "string \<Rightarrow> string \<Rightarrow> bool" where
  "starts_with [] s = True"
| "starts_with (c # cs) [] = False"
| "starts_with (c # cs) (d # ds) = (c = d \<and> starts_with cs ds)"

fun find_at :: "string \<Rightarrow> string \<Rightarrow> nat \<Rightarrow> nat" where
  "find_at needle [] i = (if needle = [] then i else npos)"
| "find_at needle (c # cs) i =
     (if starts_with needle (c # cs) then i else find_at needle cs (Suc i))"

definition find_str :: "string \<Rightarrow> string \<Rightarrow> nat \<Rightarrow> nat" where
  "find_str s needle pos = (if length s < pos then npos else find_at needle (drop pos s) pos)"

definition find_chr :: "string \<Rightarrow> char \<Rightarrow> nat \<Rightarrow> nat" where
  "find_chr s c pos = find_str s [c] pos"

text \<open>
  \<open>s.substr(pos, count)\<close>: throws \<open>std::out_of_range\<close> (here \<open>None\<close>) when \<open>pos\<close> is past the
  end, and otherwise gives at most \<open>count\<close> characters from \<open>pos\<close> on.
\<close>

definition substr :: "string \<Rightarrow> nat \<Rightarrow> nat \<Rightarrow> string option" where
  "substr s pos count = (if length s < pos then None else Some (take count (drop pos s)))"

text \<open>
  \<open>std::to_string(int)\<close>: the decimal digits, with a minus sign in front of a negative
  value.
\<close>

fun digits :: "nat \<Rightarrow> string" where
  "digits n = (if n < 10 then [''0123456789'' ! n] else digits (n div 10) @ [''0123456789'' ! (n mod 10)])"

declare digits.simps [simp del]

definition to_string :: "int \<Rightarrow> string" where
  "to_string i = (if i < 0 then CHR ''-'' # digits (nat (- i)) else digits (nat i))"

text \<open>
  Division of two \<open>int\<close> values in C++ truncates towards zero; \<open>div\<close> of HOL rounds down.
\<close>

definition cdiv :: "int \<Rightarrow> int \<Rightarrow> int" where
  "cdiv a b = sgn a * sgn b * (\<bar>a\<bar> div \<bar>b\<bar>)"

subsection \<open>Sending\<close>

definition isConnected :: "marlin \<Rightarrow> bool" where
  "isConnected m = (0 \<le> marlinPort m)"

text \<open>
  \<open>sendGCode\<close> writes the line when the port is open and only reports an error when it is
  not.
\<close>

definition sendGCode :: "string \<Rightarrow> marlin \<Rightarrow> marlin" where
  "sendGCode gcode m = (if \<not> isConnected m then m else m\<lparr>wire := wire m @ [gcode]\<rparr>)"

text \<open>
  \<open>std::to_string(double)\<close> and \<open>std::stod\<close> belong to the C++ library, not to the
  repository. The functions that call them take them as the parameters \<open>dtos\<close> and
  \<open>stod\<close>; \<open>stod\<close> gives \<open>None\<close> where the library function throws. The theorems about
  these functions hold whatever the two parameters are; the examples use the instances
  \<open>to_string_fixed\<close> and \<open>stod_decimal\<close> defined further down.
\<close>

definition homeX :: "marlin \<Rightarrow> marlin" where
  "homeX m = (if \<not> isConnected m then m else sendGCode ''G28 X'' (m\<lparr>marlinState := homingX\<rparr>))"

definition moveXTo :: "(real \<Rightarrow> string) \<Rightarrow> real \<Rightarrow> real \<Rightarrow> marlin \<Rightarrow> marlin" where
  "moveXTo dtos position speed m =
     (if \<not> isConnected m then m
      else (sendGCode (''G0 X'' @ dtos position @ '' F'' @ dtos speed)
              (m\<lparr>marlinState := moveStarted\<rparr>))\<lparr>xPos := position\<rparr>)"


definition moveZTo :: "(real \<Rightarrow> string) \<Rightarrow> real \<Rightarrow> marlin \<Rightarrow> marlin" where
  "moveZTo dtos position m =
     (if \<not> isConnected m then m
      else (sendGCode (''G0 Z'' @ dtos position @ '' F300'')
              (m\<lparr>marlinState := zMoveStarted\<rparr>))\<lparr>zPos := position\<rparr>)"

definition setState :: "marlin_state \<Rightarrow> marlin \<Rightarrow> marlin" where
  "setState newState m = m\<lparr>marlinState := newState\<rparr>"

definition getState :: "marlin \<Rightarrow> marlin_state" where
  "getState m = marlinState m"

text \<open>
  \<open>setFanSpeed\<close>: the two clamping tests, the conversion to the duty value by the integer
  division of C++, and the line that is sent.
\<close>

definition setFanSpeed :: "int \<Rightarrow> int \<Rightarrow> marlin \<Rightarrow> marlin" where
  "setFanSpeed fanNumber speedPercent m =
     (let p1 = (if speedPercent < 0 then 0 else speedPercent);
          p2 = (if 100 < p1 then 100 else p1);
          pwmValue = cdiv (p2 * 255) 100
      in sendGCode (''M106 P'' @ to_string fanNumber @ '' S'' @ to_string pwmValue) m)"

subsection \<open>Reading\<close>

text \<open>
  \<open>extractPosition\<close>. The two assignments stand in one \<open>try\<close> block whose handler only
  reports the error: an exception of \<open>substr\<close> or \<open>stod\<close> ends the block at that point
  and keeps what was assigned before it.
\<close>

definition extractPosition :: "(string \<Rightarrow> real option) \<Rightarrow> string \<Rightarrow> marlin \<Rightarrow> marlin" where
  "extractPosition stod response m =
     (let xPosStart = find_str response ''X:'' 0;
          zPosStart = find_str response ''Z:'' 0
      in if xPosStart \<noteq> npos \<and> zPosStart \<noteq> npos then
           (case Option.bind
                   (substr response (xPosStart + 2)
                      (size_sub (find_chr response CHR '' '' xPosStart) (xPosStart + 2)))
                   stod of
              None \<Rightarrow> m
            | Some x \<Rightarrow>
                (case Option.bind
                        (substr response (zPosStart + 2)
                           (size_sub (find_chr response CHR '' '' zPosStart) (zPosStart + 2)))
                        stod of
                   None \<Rightarrow> m\<lparr>xPos := x\<rparr>
                 | Some z \<Rightarrow> m\<lparr>xPos := x, zPos := z\<rparr>))
         else m)"

text \<open>
  \<open>handleResponse\<close>: a line that starts with \<open>X:\<close> is a position report and ends the call;
  any other line goes through the \<open>switch\<close> on the state.
\<close>

definition handleResponse :: "(string \<Rightarrow> real option) \<Rightarrow> string \<Rightarrow> marlin \<Rightarrow> marlin" where
  "handleResponse stod response m =
     (if find_str response ''X:'' 0 = 0 then extractPosition stod response m
      else
        (case marlinState m of
           homingX \<Rightarrow> (if response = ''ok'' then m\<lparr>marlinState := xHomed\<rparr> else m)
         | homingZ \<Rightarrow> (if response = ''ok'' then m\<lparr>marlinState := idle\<rparr> else m)
         | zMoveStarted \<Rightarrow>
             (if response = ''ok''
              then (sendGCode ''M400'' m)\<lparr>marlinState := zMoveWaitForComplete1\<rparr>
              else m)
         | zMoveWaitForComplete1 \<Rightarrow>
             (if response = ''ok''
              then (if burnExtraOK m
                    then m\<lparr>burnExtraOK := False, marlinState := zMoveWaitForComplete2\<rparr>
                    else m\<lparr>marlinState := idle\<rparr>)
              else m)
         | zMoveWaitForComplete2 \<Rightarrow> (if response = ''ok'' then m\<lparr>marlinState := idle\<rparr> else m)
         | moveStarted \<Rightarrow>
             (if response = ''ok''
              then (sendGCode ''M400'' m)\<lparr>marlinState := moveWaitForComplete\<rparr>
              else m)
         | moveWaitForComplete \<Rightarrow>
             (if response = ''ok'' then m\<lparr>marlinState := moveCompleted\<rparr> else m)
         | getPosition \<Rightarrow> (if response = ''ok'' then m\<lparr>marlinState := idle\<rparr> else m)
         | _ \<Rightarrow> m))"

text \<open>The reader thread hands the lines to \<open>handleResponse\<close> one after the other.\<close>

fun handleResponses :: "(string \<Rightarrow> real option) \<Rightarrow> string list \<Rightarrow> marlin \<Rightarrow> marlin" where
  "handleResponses stod [] m = m"
| "handleResponses stod (l # ls) m = handleResponses stod ls (handleResponse stod l m)"

text \<open>
  The constructor, once the port is open on file descriptor \<open>fd\<close>: the member
  initialisers of the header, then \<open>sendGCode("G90")\<close> and \<open>marlinState = idle\<close>.
  \<open>disconnect\<close> closes an open port.
\<close>

definition MarlinController :: "int \<Rightarrow> marlin" where
  "MarlinController fd =
     (sendGCode ''G90''
        \<lparr>marlinState = disconnected, xPos = 0, zPos = 0, burnExtraOK = False,
         marlinPort = fd, wire = []\<rparr>)\<lparr>marlinState := idle\<rparr>"


section \<open>The dispenser (main.cpp)\<close>

datatype machine_state =
    idle_machine
  | phase1_x_homing
  | phase2_x_to_start
  | phase3_tab_lifting
  | phase4_lid_peeling
  | phase5_x_rehoming
  | phase6_z_lift_to_eject
  | phase7_x_eject
  | phase8_x_rehoming_final
  | phase9_z_next_can
  | initial_z_homing
  | initial_z_offsetting
  | loading_first
  | canLoad_step_1
  | canLoad_step_2

datatype ScheduleMode = INTERVAL_MODE | DAILY_MODE

datatype MenuState =
    CLOCK_SCREEN
  | MAIN_MENU
  | COMMANDS_MENU
  | SETTINGS_MENU
  | ADJUST_Z_MENU
  | LOAD_CAN_MENU
  | LOAD_CAN_INSERT_MENU
  | SCHEDULE_MODE_MENU
  | SCHEDULE_TIME_MENU
  | RUNNING_OPERATION

text \<open>
  What \<open>saveStateToJSON\<close> writes to \<open>machine_state.json\<close>, one field for each key but the
  wall-clock \<open>timestamp\<close>. The states and the mode are written as text; the numbers are
  kept as values (their formatting by the output stream is not modelled).
\<close>

record snapshot =
  json_machine_state :: string
  json_marlin_state :: string
  json_x_position :: real
  json_z_position :: real
  json_cans_loaded :: int
  json_eject_last :: real
  json_feed_gap :: real
  json_feed_time :: int
  json_schedule_mode :: string
  json_daily_feed_hour :: int
  json_daily_feed_minute :: int

text \<open>
  The global variables of main.cpp that the sequencer, the abort and the scheduler read or
  write. \<open>marlin\<close> is the controller that \<open>g_marlin\<close> points to: the pointer is set before
  any of the functions below can run and cleared only after the control loop has ended, so
  the tests \<open>if (g_marlin)\<close> of the source always succeed here and are not repeated.
  \<open>phase1_started\<close> to \<open>phase9_started\<close> are the \<open>static bool started\<close> of the nine phase
  functions. \<open>json_file\<close> is the content of \<open>machine_state.json\<close> (\<open>None\<close> before the first
  write); the file is taken to be writable. The display is not modelled.
\<close>

record feeder =
  machineState :: machine_state
  marlin :: marlin
  cansLoaded :: int
  operationRunning :: bool
  feedGap :: real
  feedTime :: int
  scheduleMode :: ScheduleMode
  dailyFeedHour :: int
  dailyFeedMinute :: int
  startupSequenceComplete :: bool
  ejectLast :: real
  currentMenu :: MenuState
  menuSelection :: int
  phase1_started :: bool
  phase2_started :: bool
  phase3_started :: bool
  phase4_started :: bool
  phase5_started :: bool
  phase6_started :: bool
  phase7_started :: bool
  phase8_started :: bool
  phase9_started :: bool
  json_file :: "snapshot option"

definition canToEject :: real where
  "canToEject = 21"

definition nextCan :: real where
  "nextCan = 37"

subsection \<open>The persisted snapshot\<close>

fun machineStateToString :: "machine_state \<Rightarrow> string" where
  "machineStateToString idle_machine = ''idle''"
| "machineStateToString phase1_x_homing = ''phase1_x_homing''"
| "machineStateToString phase2_x_to_start = ''phase2_x_to_start''"
| "machineStateToString phase3_tab_lifting = ''phase3_tab_lifting''"
| "machineStateToString phase4_lid_peeling = ''phase4_lid_peeling''"
| "machineStateToString phase5_x_rehoming = ''phase5_x_rehoming''"
| "machineStateToString phase6_z_lift_to_eject = ''phase6_z_lift_to_eject''"
| "machineStateToString phase7_x_eject = ''phase7_x_eject''"
| "machineStateToString phase8_x_rehoming_final = ''phase8_x_rehoming_final''"
| "machineStateToString phase9_z_next_can = ''phase9_z_next_can''"
| "machineStateToString initial_z_homing = ''initial_z_homing''"
| "machineStateToString initial_z_offsetting = ''initial_z_offsetting''"
| "machineStateToString loading_first = ''loading_first''"
| "machineStateToString canLoad_step_1 = ''canLoad_step_1''"
| "machineStateToString canLoad_step_2 = ''canLoad_step_2''"

fun marlinStateToString :: "marlin_state \<Rightarrow> string" where
  "marlinStateToString disconnected = ''disconnected''"
| "marlinStateToString idle = ''idle''"
| "marlinStateToString homingZ = ''homingZ''"
| "marlinStateToString homingX = ''homingX''"
| "marlinStateToString xHomed = ''xHomed''"
| "marlinStateToString moveStarted = ''moveStarted''"
| "marlinStateToString moveWaitForComplete = ''moveWaitForComplete''"
| "marlinStateToString moveCompleted = ''moveCompleted''"
| "marlinStateToString getPosition = ''getPosition''"
| "marlinStateToString _ = ''unknown''"


definition saveStateToJSON :: "feeder \<Rightarrow> feeder" where
  "saveStateToJSON s =
     s\<lparr>json_file := Some
       \<lparr>json_machine_state = machineStateToString (machineState s),
        json_marlin_state = marlinStateToString (getState (marlin s)),
        json_x_position = xPos (marlin s),
        json_z_position = zPos (marlin s),
        json_cans_loaded = cansLoaded s,
        json_eject_last = ejectLast s,
        json_feed_gap = feedGap s,
        json_feed_time = feedTime s,
        json_schedule_mode = (if scheduleMode s = INTERVAL_MODE then ''INTERVAL'' else ''DAILY''),
        json_daily_feed_hour = dailyFeedHour s,
        json_daily_feed_minute = dailyFeedMinute s\<rparr>\<rparr>"

subsection \<open>The nine phases\<close>

text \<open>
  Each phase function has the shape of the source: the reset request first, then the entry
  action on the first visit, then the test of the controller's state.
\<close>

definition phase1_x_homing_state :: "bool \<Rightarrow> feeder \<Rightarrow> feeder" where
  "phase1_x_homing_state reset s =
     (if reset then s\<lparr>phase1_started := False\<rparr>
      else if \<not> phase1_started s then
        saveStateToJSON
          (s\<lparr>phase1_started := True, marlin := homeX (marlin s), machineState := phase1_x_homing\<rparr>)
      else if getState (marlin s) = xHomed then
        saveStateToJSON (s\<lparr>machineState := phase2_x_to_start, phase1_started := False\<rparr>)
      else s)"

definition phase2_x_to_start_state :: "(real \<Rightarrow> string) \<Rightarrow> bool \<Rightarrow> feeder \<Rightarrow> feeder" where
  "phase2_x_to_start_state dtos reset s =
     (if reset then s\<lparr>phase2_started := False\<rparr>
      else if \<not> phase2_started s then
        saveStateToJSON
          (s\<lparr>phase2_started := True,
             marlin := moveXTo dtos 165 600 (setState moveStarted (marlin s))\<rparr>)
      else if getState (marlin s) = moveCompleted then
        saveStateToJSON (s\<lparr>machineState := phase3_tab_lifting, phase2_started := False\<rparr>)
      else s)"

definition phase3_tab_lifting_state :: "(real \<Rightarrow> string) \<Rightarrow> bool \<Rightarrow> feeder \<Rightarrow> feeder" where
  "phase3_tab_lifting_state dtos reset s =
     (if reset then s\<lparr>phase3_started := False\<rparr>
      else if \<not> phase3_started s then
        saveStateToJSON
          (s\<lparr>phase3_started := True,
             marlin := moveXTo dtos 248 150 (setState moveStarted (marlin s))\<rparr>)
      else if getState (marlin s) = moveCompleted then
        saveStateToJSON (s\<lparr>machineState := phase4_lid_peeling, phase3_started := False\<rparr>)
      else s)"

definition phase4_lid_peeling_state :: "(real \<Rightarrow> string) \<Rightarrow> bool \<Rightarrow> feeder \<Rightarrow> feeder" where
  "phase4_lid_peeling_state dtos reset s =
     (if reset then s\<lparr>phase4_started := False\<rparr>
      else if \<not> phase4_started s then
        saveStateToJSON
          (s\<lparr>phase4_started := True,
             marlin := moveXTo dtos 25 150 (setState moveStarted (marlin s))\<rparr>)
      else if getState (marlin s) = moveCompleted then
        saveStateToJSON (s\<lparr>machineState := phase5_x_rehoming, phase4_started := False\<rparr>)
      else s)"

definition phase5_x_rehoming_state :: "bool \<Rightarrow> feeder \<Rightarrow> feeder" where
  "phase5_x_rehoming_state reset s =
     (if reset then s\<lparr>phase5_started := False\<rparr>
      else if \<not> phase5_started s then
        saveStateToJSON (s\<lparr>phase5_started := True, marlin := homeX (marlin s)\<rparr>)
      else if getState (marlin s) = xHomed then
        saveStateToJSON (s\<lparr>machineState := phase6_z_lift_to_eject, phase5_started := False\<rparr>)
      else s)"

definition phase6_z_lift_to_eject_state :: "(real \<Rightarrow> string) \<Rightarrow> bool \<Rightarrow> feeder \<Rightarrow> feeder" where
  "phase6_z_lift_to_eject_state dtos reset s =
     (if reset then s\<lparr>phase6_started := False\<rparr>
      else if \<not> phase6_started s then
        saveStateToJSON
          (s\<lparr>phase6_started := True,
             marlin := moveZTo dtos (zPos (marlin s) + canToEject) (marlin s)\<rparr>)
      else if getState (marlin s) = idle then
        saveStateToJSON (s\<lparr>machineState := phase7_x_eject, phase6_started := False\<rparr>)
      else s)"

definition phase7_x_eject_state :: "(real \<Rightarrow> string) \<Rightarrow> bool \<Rightarrow> feeder \<Rightarrow> feeder" where
  "phase7_x_eject_state dtos reset s =
     (if reset then s\<lparr>phase7_started := False\<rparr>
      else if \<not> phase7_started s then
        saveStateToJSON (s\<lparr>phase7_started := True, marlin := moveXTo dtos 248 600 (marlin s)\<rparr>)
      else if getState (marlin s) = moveCompleted then
        saveStateToJSON (s\<lparr>machineState := phase8_x_rehoming_final, phase7_started := False\<rparr>)
      else s)"

definition phase8_x_rehoming_final_state :: "bool \<Rightarrow> feeder \<Rightarrow> feeder" where
  "phase8_x_rehoming_final_state reset s =
     (if reset then s\<lparr>phase8_started := False\<rparr>
      else if \<not> phase8_started s then
        saveStateToJSON
          (s\<lparr>phase8_started := True, marlin := homeX (setState moveStarted (marlin s))\<rparr>)
      else if getState (marlin s) = xHomed then
        saveStateToJSON (s\<lparr>machineState := phase9_z_next_can, phase8_started := False\<rparr>)
      else s)"

definition phase9_z_next_can_state :: "(real \<Rightarrow> string) \<Rightarrow> bool \<Rightarrow> feeder \<Rightarrow> feeder" where
  "phase9_z_next_can_state dtos reset s =
     (if reset then s\<lparr>phase9_started := False\<rparr>
      else if \<not> phase9_started s then
        saveStateToJSON
          (s\<lparr>phase9_started := True,
             marlin := moveZTo dtos (zPos (marlin s) + nextCan) (marlin s)\<rparr>)
      else if getState (marlin s) = idle then
        saveStateToJSON
          (s\<lparr>machineState := idle_machine, phase9_started := False,
             cansLoaded := cansLoaded s - 1\<rparr>)
      else s)"

text \<open>With \<open>reset\<close> set no phase function calls the library, so any \<open>dtos\<close> will do there.\<close>

definition resetAllPhases :: "feeder \<Rightarrow> feeder" where
  "resetAllPhases s =
     phase9_z_next_can_state (\<lambda>_. []) True
       (phase8_x_rehoming_final_state True
         (phase7_x_eject_state (\<lambda>_. []) True
           (phase6_z_lift_to_eject_state (\<lambda>_. []) True
             (phase5_x_rehoming_state True
               (phase4_lid_peeling_state (\<lambda>_. []) True
                 (phase3_tab_lifting_state (\<lambda>_. []) True
                   (phase2_x_to_start_state (\<lambda>_. []) True
                     (phase1_x_homing_state True s))))))))"


definition dispenseFoodStart :: "feeder \<Rightarrow> feeder" where
  "dispenseFoodStart s =
     (if cansLoaded s < 1 then s
      else
        phase1_x_homing_state False
          (saveStateToJSON
            ((resetAllPhases
               (s\<lparr>operationRunning := True,
                  marlin := setFanSpeed 1 100 (setFanSpeed 0 100 (marlin s))\<rparr>))
             \<lparr>machineState := idle_machine\<rparr>)))"

definition abortOperation :: "feeder \<Rightarrow> feeder" where
  "abortOperation s =
     (if operationRunning s then
        (let s1 = s\<lparr>marlin := setFanSpeed 1 0 (setFanSpeed 0 0 (sendGCode ''M112'' (marlin s)))\<rparr>;
             s2 = s1\<lparr>operationRunning := False\<rparr>;
             s3 = resetAllPhases s2;
             s4 = s3\<lparr>machineState := idle_machine\<rparr>;
             s5 = s4\<lparr>marlin := setState idle (marlin s4)\<rparr>;
             s6 = saveStateToJSON s5
         in s6\<lparr>currentMenu := CLOCK_SCREEN\<rparr>)
      else s)"

subsection \<open>The feed schedule\<close>



text \<open>
  The interval is added in \<open>double\<close> arithmetic: \<open>now + (feedGap * 3600)\<close> converts \<open>now\<close>
  to \<open>double\<close>, rounds the product and then the sum to the nearest \<open>double\<close> (IEEE 754
  binary64, ties to even, the product and the sum rounded one after the other, not fused
  into one operation), and the assignment to the \<open>time_t\<close> drops the fraction. The field
  \<open>feedGap\<close> holds the value of the \<open>double\<close>. \<open>round_double\<close> gives \<open>None\<close> when the
  result is too large for a finite \<open>double\<close>, and \<open>to_time_t\<close> gives \<open>None\<close> when the value
  does not fit the 64-bit \<open>time_t\<close>, where the conversion is undefined in C++.
  \<open>double_exponent a\<close> is the exponent \<open>e\<close> with \<open>2 ^ e \<le> a < 2 ^ (e + 1)\<close>, not below that
  of the smallest normal number.
\<close>

fun bit_length :: "nat \<Rightarrow> nat" where
  "bit_length n = (if n = 0 then 0 else Suc (bit_length (n div 2)))"

declare bit_length.simps [simp del]

definition double_exponent :: "real \<Rightarrow> int" where
  "double_exponent a =
     (if 1 \<le> a then int (bit_length (nat \<lfloor>a\<rfloor>)) - 1
      else max (- 1022) (- int (bit_length (nat (\<lceil>1 / a\<rceil> - 1)))))"

definition pow2 :: "int \<Rightarrow> real" where
  "pow2 e = (if 0 \<le> e then 2 ^ nat e else 1 / 2 ^ nat (- e))"

definition round_half_even :: "real \<Rightarrow> int" where
  "round_half_even y =
     (if y - of_int \<lfloor>y\<rfloor> < 1 / 2 then \<lfloor>y\<rfloor>
      else if 1 / 2 < y - of_int \<lfloor>y\<rfloor> then \<lfloor>y\<rfloor> + 1
      else if even \<lfloor>y\<rfloor> then \<lfloor>y\<rfloor> else \<lfloor>y\<rfloor> + 1)"

definition round_double :: "real \<Rightarrow> real option" where
  "round_double x =
     (if x = 0 then Some 0
      else
        (let q = pow2 (double_exponent \<bar>x\<bar> - 52);
             r = of_int (round_half_even (\<bar>x\<bar> / q)) * q
         in if 2 ^ 1024 \<le> r then None else Some (sgn x * r)))"

definition to_time_t :: "real \<Rightarrow> int option" where
  "to_time_t r =
     (let t = (if r < 0 then \<lceil>r\<rceil> else \<lfloor>r\<rfloor>)
      in if - (2 ^ 63) \<le> t \<and> t < 2 ^ 63 then Some t else None)"

text \<open>
  The value that \<open>feedTime = now + (feedGap * 3600)\<close> stores, which the source computes
  at three places (lines 1657, 1899 and 1997 of main.cpp).
\<close>

definition interval_feed_time :: "int \<Rightarrow> real \<Rightarrow> int option" where
  "interval_feed_time now gap =
     Option.bind (round_double (gap * 3600)) (\<lambda>p.
     Option.bind (round_double (of_int now)) (\<lambda>n.
     Option.bind (round_double (n + p)) to_time_t))"







text \<open>
  The block of the control loop that starts a scheduled feed, with \<open>currentTime\<close> the clock
  value it reads.
\<close>

definition main_scheduled_feed_check :: "int \<Rightarrow> feeder \<Rightarrow> feeder option" where
  "main_scheduled_feed_check currentTime s =
     (if \<not> operationRunning s \<and> machineState s = idle_machine \<and> 0 < feedTime s
         \<and> startupSequenceComplete s then
        (if feedTime s \<le> currentTime then
           (case (if scheduleMode s = DAILY_MODE then Some (feedTime s + 24 * 3600)
                  else interval_feed_time currentTime (feedGap s)) of
              None \<Rightarrow> None
            | Some v \<Rightarrow> Some (dispenseFoodStart (saveStateToJSON (s\<lparr>feedTime := v\<rparr>))))
         else Some s)
      else Some s)"

section \<open>Runs and concrete values\<close>




text \<open>
  The report grammar of the specification: the value of an axis is the text that follows
  the first marker (\<open>X:\<close> or \<open>Z:\<close>) up to the next space.
\<close>

fun spec_after :: "string \<Rightarrow> string \<Rightarrow> string option" where
  "spec_after marker [] = (if marker = [] then Some [] else None)"
| "spec_after marker (c # cs) =
     (if starts_with marker (c # cs) then Some (drop (length marker) (c # cs))
      else spec_after marker cs)"

definition spec_field :: "string \<Rightarrow> string \<Rightarrow> string option" where
  "spec_field marker line =
     map_option (takeWhile (\<lambda>c. c \<noteq> CHR '' '')) (spec_after marker line)"



fun latch :: "machine_state \<Rightarrow> feeder \<Rightarrow> bool" where
  "latch phase1_x_homing s = phase1_started s"
| "latch phase2_x_to_start s = phase2_started s"
| "latch phase3_tab_lifting s = phase3_started s"
| "latch phase4_lid_peeling s = phase4_started s"
| "latch phase5_x_rehoming s = phase5_started s"
| "latch phase6_z_lift_to_eject s = phase6_started s"
| "latch phase7_x_eject s = phase7_started s"
| "latch phase8_x_rehoming_final s = phase8_started s"
| "latch phase9_z_next_can s = phase9_started s"
| "latch _ s = False"




text \<open>
  Concrete values for the examples: a controller on file descriptor 3, the global
  variables as main.cpp initialises them, and two instances of the library functions.
  \<open>stod_decimal\<close> reads what the firmware's reports hold (blanks, a sign, digits, a
  fraction) and follows \<open>std::stod\<close> there; \<open>to_string_fixed\<close> prints six decimals as
  \<open>std::to_string\<close> does.
\<close>

definition feeder_initial :: feeder where
  "feeder_initial =
     \<lparr>machineState = idle_machine, marlin = MarlinController 3, cansLoaded = 0,
      operationRunning = False, feedGap = 8, feedTime = 0, scheduleMode = INTERVAL_MODE,
      dailyFeedHour = 6, dailyFeedMinute = 30, startupSequenceComplete = False,
      ejectLast = 318, currentMenu = CLOCK_SCREEN, menuSelection = 0,
      phase1_started = False, phase2_started = False, phase3_started = False,
      phase4_started = False, phase5_started = False, phase6_started = False,
      phase7_started = False, phase8_started = False, phase9_started = False,
      json_file = None\<rparr>"

definition isspace :: "char \<Rightarrow> bool" where
  "isspace c = (c \<in> set [CHR '' '', CHR 0x09, CHR 0x0A, CHR 0x0B, CHR 0x0C, CHR 0x0D])"

definition isdigit :: "char \<Rightarrow> bool" where
  "isdigit c = (c \<in> set ''0123456789'')"

definition decimal :: "string \<Rightarrow> nat" where
  "decimal ds = foldl (\<lambda>a c. 10 * a + (of_char c - 48)) 0 ds"

definition stod_decimal :: "string \<Rightarrow> real option" where
  "stod_decimal s =
     (let s1 = dropWhile isspace s;
          neg = (s1 \<noteq> [] \<and> hd s1 = CHR ''-'');
          s2 = (if s1 \<noteq> [] \<and> (hd s1 = CHR ''-'' \<or> hd s1 = CHR ''+'') then tl s1 else s1);
          ip = takeWhile isdigit s2;
          r1 = dropWhile isdigit s2;
          fp = (if r1 \<noteq> [] \<and> hd r1 = CHR ''.'' then takeWhile isdigit (tl r1) else [])
      in if ip = [] \<and> fp = [] then None
         else Some ((if neg then - 1 else 1) *
                    (real (decimal ip) + real (decimal fp) / 10 ^ length fp)))"


section \<open>Lemmas about the controller\<close>

lemma ok_is_no_report: "find_str ''ok'' ''X:'' 0 \<noteq> 0"
  by (simp add: find_str_def npos_def)

lemma npos_not_zero: "npos \<noteq> 0"
  by (simp add: npos_def)

lemma find_at_from: "find_at needle s i = npos \<or> i \<le> find_at needle s i"
proof (induction s arbitrary: i)
  case Nil
  then show ?case by simp
next
  case (Cons c cs)
  from Cons.IH [of "Suc i"] show ?case by auto
qed

text \<open>The test \<open>response.find("X:") == 0\<close> holds exactly for the lines that begin with \<open>X:\<close>.\<close>

lemma report_prefix: "(find_str line ''X:'' 0 = 0) = starts_with ''X:'' line"
proof (cases line)
  case Nil
  then show ?thesis by (simp add: find_str_def npos_not_zero)
next
  case (Cons c cs)
  from find_at_from [of "''X:''" cs "Suc 0"] npos_not_zero
  have "\<not> starts_with ''X:'' (c # cs) \<Longrightarrow> find_at ''X:'' cs (Suc 0) \<noteq> 0"
    by auto
  with Cons show ?thesis by (auto simp: find_str_def)
qed

text \<open>\<open>extractPosition\<close> writes no field but the two positions.\<close>

lemma extractPosition_frame: "\<exists>x z. extractPosition stod line m = m\<lparr>xPos := x, zPos := z\<rparr>"
proof -
  have a: "m = m\<lparr>xPos := xPos m, zPos := zPos m\<rparr>" by simp
  have b: "\<And>x. m\<lparr>xPos := x\<rparr> = m\<lparr>xPos := x, zPos := zPos m\<rparr>" by simp
  show ?thesis
    unfolding extractPosition_def Let_def
    by (auto split: option.splits intro: exI [of _ "xPos m"] a b)
qed

lemma report_frame:
  "starts_with ''X:'' line \<Longrightarrow> \<exists>x z. handleResponse stod line m = m\<lparr>xPos := x, zPos := z\<rparr>"
  by (simp add: handleResponse_def report_prefix extractPosition_frame)

lemma other_line_ignored:
  "\<not> starts_with ''X:'' line \<Longrightarrow> line \<noteq> ''ok'' \<Longrightarrow> handleResponse stod line m = m"
  by (simp add: handleResponse_def report_prefix split: marlin_state.splits)

lemma other_state_ignored:
  "marlinState m \<in> {disconnected, idle, zMoveCompleted, xHomed, moveCompleted} \<Longrightarrow>
   \<not> starts_with ''X:'' line \<Longrightarrow> handleResponse stod line m = m"
  by (auto simp add: handleResponse_def report_prefix split: marlin_state.splits)

lemma ok_dispatch:
  "handleResponse stod ''ok'' m =
     (case marlinState m of
        homingX \<Rightarrow> m\<lparr>marlinState := xHomed\<rparr>
      | homingZ \<Rightarrow> m\<lparr>marlinState := idle\<rparr>
      | zMoveStarted \<Rightarrow> (sendGCode ''M400'' m)\<lparr>marlinState := zMoveWaitForComplete1\<rparr>
      | zMoveWaitForComplete1 \<Rightarrow>
          (if burnExtraOK m then m\<lparr>burnExtraOK := False, marlinState := zMoveWaitForComplete2\<rparr>
           else m\<lparr>marlinState := idle\<rparr>)
      | zMoveWaitForComplete2 \<Rightarrow> m\<lparr>marlinState := idle\<rparr>
      | moveStarted \<Rightarrow> (sendGCode ''M400'' m)\<lparr>marlinState := moveWaitForComplete\<rparr>
      | moveWaitForComplete \<Rightarrow> m\<lparr>marlinState := moveCompleted\<rparr>
      | getPosition \<Rightarrow> m\<lparr>marlinState := idle\<rparr>
      | _ \<Rightarrow> m)"
  by (simp add: handleResponse_def ok_is_no_report split: marlin_state.splits)

text \<open>
  A report whose X value parses and whose Z value does not: \<open>xPos\<close> alone is written,
  whatever \<open>std::stod\<close> does on other strings.
\<close>

lemma report_without_z_value:
  "stod ''1.5'' = Some x \<Longrightarrow> stod [] = None \<Longrightarrow>
   handleResponse stod ''X:1.5 Z:'' m = m\<lparr>xPos := x\<rparr>"
  by (simp add: handleResponse_def extractPosition_def find_str_def find_chr_def npos_def
        substr_def size_sub_def)

lemma starts_with_append: "starts_with mk t \<Longrightarrow> t = mk @ drop (length mk) t"
  by (induction mk t rule: starts_with.induct) simp_all

text \<open>
  The searches of \<open>extractPosition\<close> against the report grammar: \<open>find\<close> stops at the first
  marker, and the substring taken from there to the next space (or to the end of the line)
  is the field of the grammar.
\<close>

lemma find_at_after:
  "spec_after mk s = Some r \<Longrightarrow>
   \<exists>k. find_at mk s i = i + k \<and> k + length mk \<le> length s
       \<and> drop k s = mk @ r"
proof (induction s arbitrary: i)
  case Nil
  then show ?case by (auto split: if_splits)
next
  case (Cons c cs)
  show ?case
  proof (cases "starts_with mk (c # cs)")
    case True
    with Cons.prems have r: "r = drop (length mk) (c # cs)" by simp
    from starts_with_append [OF True] have d: "drop 0 (c # cs) = mk @ r" using r by simp
    then have l: "0 + length mk \<le> length (c # cs)" by (metis add_0 drop_0 length_append le_add1)
    have f: "find_at mk (c # cs) i = i + 0" using True by simp
    from f l d show ?thesis by blast
  next
    case False
    with Cons.prems have "spec_after mk cs = Some r" by simp
    from Cons.IH [OF this, of "Suc i"] obtain k where
      "find_at mk cs (Suc i) = Suc i + k" "k + length mk \<le> length cs" "drop k cs = mk @ r"
      by blast
    with False show ?thesis by (intro exI [of _ "Suc k"]) simp
  qed
qed

lemma find_at_none: "spec_after mk s = None \<Longrightarrow> find_at mk s i = npos"
  by (induction s arbitrary: i) (auto split: if_splits)

lemma find_at_space:
  "find_at [sp] t i
     = (if sp \<in> set t then i + length (takeWhile (\<lambda>c. c \<noteq> sp) t) else npos)"
  by (induction t arbitrary: i) auto

lemma size_sub_le: "b \<le> a \<Longrightarrow> a < 2 ^ 64 \<Longrightarrow> size_sub a b = a - b"
proof -
  assume le: "b \<le> a" and lt: "a < (2::nat) ^ 64"
  then have b: "b mod 2 ^ 64 = b" by simp
  have eq: "a + 2 ^ 64 - b = (a - b) + 2 ^ 64" using le by simp
  have small: "a - b < 2 ^ 64" using lt by simp
  have "(a + 2 ^ 64 - b mod 2 ^ 64) mod 2 ^ 64 = ((a - b) + 2 ^ 64) mod 2 ^ 64"
    by (simp only: b eq)
  also have "\<dots> = (a - b) mod 2 ^ 64" by (rule mod_add_self2)
  also have "\<dots> = a - b" using small by (rule mod_less)
  finally show ?thesis by (simp only: size_sub_def)
qed

lemma code_field:
  assumes a: "spec_after mk line = Some r" and len: "length line < npos"
    and mk: "length mk = 2" "CHR '' '' \<notin> set mk"
  shows "find_str line mk 0 \<noteq> npos
     \<and> substr line (find_str line mk 0 + 2)
         (size_sub (find_chr line CHR '' '' (find_str line mk 0)) (find_str line mk 0 + 2))
       = Some (takeWhile (\<lambda>c. c \<noteq> CHR '' '') r)"
proof -
  from find_at_after [OF a, of 0] obtain k where
    k: "find_at mk line 0 = k" "k + length mk \<le> length line" "drop k line = mk @ r"
    by auto
  have p: "find_str line mk 0 = k" using k(1) by (simp add: find_str_def)
  have kl: "k + 2 \<le> length line" using k(2) mk(1) by simp
  have knp: "k \<noteq> npos" using kl len by simp
  have rest: "drop (k + 2) line = r"
  proof -
    have "drop (k + 2) line = drop 2 (drop k line)" by (simp add: add.commute)
    also have "\<dots> = r" using k(3) mk(1) by simp
    finally show ?thesis .
  qed
  have tw: "takeWhile (\<lambda>c. c \<noteq> CHR '' '') (mk @ r) = mk @ takeWhile (\<lambda>c. c \<noteq> CHR '' '') r"
    by (rule takeWhile_append2) (use mk(2) in auto)
  have inset: "CHR '' '' \<in> set (mk @ r) \<longleftrightarrow> CHR '' '' \<in> set r" using mk(2) by simp
  have q: "find_chr line CHR '' '' k
             = (if CHR '' '' \<in> set r
                then k + 2 + length (takeWhile (\<lambda>c. c \<noteq> CHR '' '') r) else npos)"
    using kl mk(2) by (simp add: find_chr_def find_str_def find_at_space k(3) tw mk(1))
  have lr: "length r = length line - (k + 2)" using rest [symmetric] by simp
  have field: "take (size_sub (find_chr line CHR '' '' k) (k + 2)) r
                 = takeWhile (\<lambda>c. c \<noteq> CHR '' '') r"
  proof (cases "CHR '' '' \<in> set r")
    case True
    let ?n = "length (takeWhile (\<lambda>c. c \<noteq> CHR '' '') r)"
    have "?n \<le> length r" by (rule length_takeWhile_le)
    with lr kl len have b: "k + 2 + ?n < 2 ^ 64" by (simp add: npos_def)
    then have "size_sub (k + 2 + ?n) (k + 2) = ?n"
      by (simp add: size_sub_le)
    with True q show ?thesis by (simp add: takeWhile_eq_take [symmetric])
  next
    case False
    have "k + 2 \<le> npos" using kl len by simp
    moreover have "npos < 2 ^ 64" by (simp add: npos_def)
    ultimately have sz: "size_sub npos (k + 2) = npos - (k + 2)" by (rule size_sub_le)
    have "length r \<le> npos - (k + 2)" using lr len kl by simp
    then have t: "take (npos - (k + 2)) r = r" by (rule take_all)
    have all: "takeWhile (\<lambda>c. c \<noteq> CHR '' '') r = r"
      using False by (auto simp: takeWhile_eq_all_conv)
    have qn: "find_chr line CHR '' '' k = npos" using False q by simp
    show ?thesis by (simp only: qn sz t all)
  qed
  have "substr line (k + 2) (size_sub (find_chr line CHR '' '' k) (k + 2))
          = Some (take (size_sub (find_chr line CHR '' '' k) (k + 2)) (drop (k + 2) line))"
    using kl by (simp add: substr_def)
  also have "\<dots> = Some (takeWhile (\<lambda>c. c \<noteq> CHR '' '') r)"
    by (simp only: rest field)
  finally show ?thesis unfolding p using knp by blast
qed

text \<open>
  A report whose two fields parse overwrites both positions with the parsed values; a
  report with no \<open>Z:\<close> marker changes nothing.
\<close>

lemma report_overwrites:
  assumes "length line < npos"
    "spec_field ''X:'' line = Some xs" "spec_field ''Z:'' line = Some zs"
    "stod xs = Some x" "stod zs = Some z"
  shows "extractPosition stod line m = m\<lparr>xPos := x, zPos := z\<rparr>"
proof -
  from assms(2) obtain rx where rx: "spec_after ''X:'' line = Some rx"
    "xs = takeWhile (\<lambda>c. c \<noteq> CHR '' '') rx" by (auto simp: spec_field_def)
  from assms(3) obtain rz where rz: "spec_after ''Z:'' line = Some rz"
    "zs = takeWhile (\<lambda>c. c \<noteq> CHR '' '') rz" by (auto simp: spec_field_def)
  from code_field [OF rx(1) assms(1)] code_field [OF rz(1) assms(1)] rx(2) rz(2) assms(4,5)
  show ?thesis by (simp add: extractPosition_def Let_def)
qed

lemma report_unparsed_x:
  assumes "length line < npos"
    "spec_field ''X:'' line = Some xs" "spec_field ''Z:'' line = Some zs" "stod xs = None"
  shows "extractPosition stod line m = m"
proof -
  from assms(2) obtain rx where rx: "spec_after ''X:'' line = Some rx"
    "xs = takeWhile (\<lambda>c. c \<noteq> CHR '' '') rx" by (auto simp: spec_field_def)
  from assms(3) obtain rz where rz: "spec_after ''Z:'' line = Some rz"
    "zs = takeWhile (\<lambda>c. c \<noteq> CHR '' '') rz" by (auto simp: spec_field_def)
  from code_field [OF rx(1) assms(1)] code_field [OF rz(1) assms(1)] rx(2) rz(2) assms(4)
  show ?thesis by (simp add: extractPosition_def Let_def)
qed

lemma report_unparsed_z:
  assumes "length line < npos"
    "spec_field ''X:'' line = Some xs" "spec_field ''Z:'' line = Some zs"
    "stod xs = Some x" "stod zs = None"
  shows "extractPosition stod line m = m\<lparr>xPos := x\<rparr>"
proof -
  from assms(2) obtain rx where rx: "spec_after ''X:'' line = Some rx"
    "xs = takeWhile (\<lambda>c. c \<noteq> CHR '' '') rx" by (auto simp: spec_field_def)
  from assms(3) obtain rz where rz: "spec_after ''Z:'' line = Some rz"
    "zs = takeWhile (\<lambda>c. c \<noteq> CHR '' '') rz" by (auto simp: spec_field_def)
  from code_field [OF rx(1) assms(1)] code_field [OF rz(1) assms(1)] rx(2) rz(2) assms(4,5)
  show ?thesis by (simp add: extractPosition_def Let_def)
qed

lemma report_no_marker:
  "spec_field ''Z:'' line = None \<Longrightarrow> extractPosition stod line m = m"
  by (simp add: spec_field_def extractPosition_def Let_def find_str_def find_at_none)

lemma sendGCode_wire: "isConnected m \<Longrightarrow> wire (sendGCode g m) = wire m @ [g]"
  by (simp add: sendGCode_def)

lemma sendGCode_state: "marlinState (sendGCode g m) = marlinState m"
  by (simp add: sendGCode_def)

lemma setState_state: "marlinState (setState st m) = st"
  by (simp add: setState_def)

text \<open>On a dividend that is not negative the division of C++ is \<open>div\<close>.\<close>

lemma cdiv_nonneg: "0 \<le> a \<Longrightarrow> 0 < b \<Longrightarrow> cdiv a b = a div b"
  by (cases "a = 0") (simp_all add: cdiv_def)

lemma setFanSpeed_line:
  "setFanSpeed fan pct m =
     sendGCode (''M106 P'' @ to_string fan @ '' S''
                @ to_string ((max 0 (min 100 pct) * 255) div 100)) m"
proof -
  have "(if 100 < (if pct < 0 then 0 else pct) then 100 else (if pct < 0 then 0 else pct))
          = max 0 (min 100 pct)"
    by auto
  moreover have "0 \<le> max 0 (min 100 pct) * 255" by simp
  ultimately show ?thesis
    by (simp add: setFanSpeed_def Let_def cdiv_nonneg)
qed

lemma duty_is_floor:
  "(max 0 (min 100 pct) * 255) div 100 = \<lfloor>real_of_int (max 0 (min 100 pct)) * 255 / 100\<rfloor>"
  by (metis (no_types) floor_divide_of_int_eq of_int_mult of_int_numeral)

lemma duty_range:
  "0 \<le> (max 0 (min 100 pct) * 255) div 100 \<and> (max 0 (min 100 pct) * 255) div 100 \<le> (255::int)"
  by (auto simp: max_def min_def)



section \<open>Lemmas about the sequencer, the abort and the schedule\<close>

lemmas phase_defs =
  phase1_x_homing_state_def phase2_x_to_start_state_def phase3_tab_lifting_state_def
  phase4_lid_peeling_state_def phase5_x_rehoming_state_def phase6_z_lift_to_eject_state_def
  phase7_x_eject_state_def phase8_x_rehoming_final_state_def phase9_z_next_can_state_def

lemma resetAllPhases_eq:
  "resetAllPhases s =
     s\<lparr>phase1_started := False, phase2_started := False, phase3_started := False,
       phase4_started := False, phase5_started := False, phase6_started := False,
       phase7_started := False, phase8_started := False, phase9_started := False\<rparr>"
  by (simp add: resetAllPhases_def phase_defs)










lemma abort_active:
  "operationRunning s \<Longrightarrow>
   abortOperation s =
     (saveStateToJSON
        ((resetAllPhases s)
           \<lparr>marlin := setState idle
                        (setFanSpeed 1 0 (setFanSpeed 0 0 (sendGCode ''M112'' (marlin s)))),
            operationRunning := False, machineState := idle_machine\<rparr>))
     \<lparr>currentMenu := CLOCK_SCREEN\<rparr>"
  by (simp add: abortOperation_def Let_def resetAllPhases_eq saveStateToJSON_def setState_def
        getState_def)

lemma abort_wire:
  "isConnected m \<Longrightarrow>
   wire (setState idle (setFanSpeed 1 0 (setFanSpeed 0 0 (sendGCode ''M112'' m))))
     = wire m @ [''M112'', ''M106 P0 S0'', ''M106 P1 S0'']"
  by (simp add: setState_def setFanSpeed_def sendGCode_def isConnected_def cdiv_def
        to_string_def digits.simps)

lemma abort_latches:
  "\<not> latch p
       ((saveStateToJSON
           ((resetAllPhases s)\<lparr>marlin := m, operationRunning := b, machineState := q\<rparr>))
        \<lparr>currentMenu := c\<rparr>)"
  by (cases p) (simp_all add: resetAllPhases_eq saveStateToJSON_def)

lemma abort_twice: "abortOperation (abortOperation s) = abortOperation s"
proof (cases "operationRunning s")
  case True
  then have "\<not> operationRunning (abortOperation s)"
    by (simp add: abort_active saveStateToJSON_def)
  then show ?thesis by (simp add: abortOperation_def)
next
  case False
  then show ?thesis by (simp add: abortOperation_def)
qed

lemma dispenseFoodStart_feedTime: "feedTime (dispenseFoodStart s) = feedTime s"
  by (simp add: dispenseFoodStart_def phase_defs resetAllPhases_eq saveStateToJSON_def)

lemma dispenseFoodStart_running: "1 \<le> cansLoaded s \<Longrightarrow> operationRunning (dispenseFoodStart s)"
  by (simp add: dispenseFoodStart_def phase_defs resetAllPhases_eq saveStateToJSON_def)

text \<open>
  Whole numbers below \<open>2 ^ 53\<close> are \<open>double\<close> values, so that an interval of whole seconds
  is added exactly.
\<close>

lemma bit_length_le: "n < 2 ^ b \<Longrightarrow> bit_length n \<le> b"
proof (induction b arbitrary: n)
  case 0
  then show ?case by (simp add: bit_length.simps)
next
  case (Suc b)
  then have "n div 2 < 2 ^ b" by simp
  from Suc.IH [OF this] show ?case by (subst bit_length.simps) simp
qed

lemma round_half_even_int: "round_half_even (of_int j) = j"
  by (simp add: round_half_even_def)

lemma pow2_nonpos: "j \<le> 0 \<Longrightarrow> pow2 j = 1 / 2 ^ nat (- j)"
  by (cases "j = 0") (simp_all add: pow2_def)

lemma round_double_int:
  assumes "0 \<le> k" "k < 2 ^ 53"
  shows "round_double (of_int k) = Some (of_int k)"
proof (cases "k = 0")
  case True
  then show ?thesis by (simp add: round_double_def)
next
  case False
  with assms have pos: "0 < k" by simp
  then have one: "(1::real) \<le> of_int k" by simp
  have ab: "\<bar>real_of_int k\<bar> = real_of_int k" using pos by simp
  have "nat k < 2 ^ 53" using assms by (simp add: nat_less_iff)
  then have "bit_length (nat k) \<le> 53" by (rule bit_length_le)
  then have e: "double_exponent (real_of_int k) - 52 \<le> 0"
    using pos one by (simp add: double_exponent_def)
  define d where "d = nat (- (double_exponent (real_of_int k) - 52))"
  have q: "pow2 (double_exponent (real_of_int k) - 52) = 1 / 2 ^ d"
    unfolding d_def by (rule pow2_nonpos [OF e])
  have quot: "real_of_int k / (1 / 2 ^ d) = of_int (k * 2 ^ d)"
    by simp
  have r: "of_int (round_half_even (real_of_int k / (1 / 2 ^ d))) * (1 / 2 ^ d) = real_of_int k"
    by (simp only: quot round_half_even_int) simp
  have "real_of_int k < 2 ^ 53" using assms(2) by (metis of_int_less_numeral_power_cancel_iff)
  also have "\<dots> \<le> (2::real) ^ 1024" by (rule power_increasing) simp_all
  finally have small: "\<not> (2::real) ^ 1024 \<le> real_of_int k" by simp
  from pos have sg: "sgn (real_of_int k) = 1" by simp
  from pos have nz: "real_of_int k \<noteq> 0" by simp
  show ?thesis
    unfolding round_double_def Let_def ab q r
    using nz small sg by (simp only: if_False mult_1)
qed

lemma to_time_t_int: "- (2 ^ 63) \<le> k \<Longrightarrow> k < 2 ^ 63 \<Longrightarrow> to_time_t (of_int k) = Some k"
  by (simp add: to_time_t_def)

lemma interval_exact:
  assumes "gap * 3600 = real_of_int g" "0 \<le> g" "0 \<le> now" "now + g < 2 ^ 53"
  shows "interval_feed_time now gap = Some (now + g)"
proof -
  from assms have g: "g < 2 ^ 53" and n: "now < 2 ^ 53" and s: "0 \<le> now + g" by simp_all
  have "now + g < 2 ^ 63" using assms(4) by (rule less_le_trans) simp
  moreover have "- (2 ^ 63) \<le> now + g" using s by (rule order_trans [rotated]) simp
  ultimately have t: "to_time_t (real_of_int (now + g)) = Some (now + g)"
    by (rule to_time_t_int [rotated])
  have sum: "real_of_int now + real_of_int g = real_of_int (now + g)" by simp
  show ?thesis
    unfolding interval_feed_time_def assms(1) round_double_int [OF assms(2) g]
      round_double_int [OF assms(3) n]
    by (simp only: Option.bind.simps sum round_double_int [OF s assms(4)] t)
qed

text \<open>
  With a gap of \<open>0.7\<close> (the \<open>double\<close> \<open>6305039478318694 / 2 ^ 53\<close>) the product rounds to
  \<open>2520\<close>, where the product of the reals is a little below it; with a gap of \<open>10 ^ 18\<close> the
  sum does not fit the \<open>time_t\<close>.
\<close>

lemma interval_feed_time_rounds: "interval_feed_time 1000 (6305039478318694 / 2 ^ 53) = Some 3520"
  by (simp add: interval_feed_time_def round_double_def double_exponent_def pow2_def
        round_half_even_def to_time_t_def bit_length.simps Let_def)

lemma interval_feed_time_out_of_range: "interval_feed_time 1000 1000000000000000000 = None"
  by (simp add: interval_feed_time_def round_double_def double_exponent_def pow2_def
        round_half_even_def to_time_t_def bit_length.simps Let_def)

lemma interval_feed_time_8h: "interval_feed_time 25200 8 = Some 54000"
  using interval_exact [of 8 28800 25200] by simp



section \<open>The claims\<close>

text \<open>
  C1. The line handler is the dispatch table of the specification. A line that begins with
  \<open>X:\<close> is a position report in every state: it leaves the protocol state as it was and
  changes at most the two positions. With \<open>xs\<close> and \<open>zs\<close> the fields of the report after its
  first \<open>X:\<close> and its first \<open>Z:\<close>, each up to the next space (in a line shorter than
  \<open>npos\<close>, as every \<open>std::string\<close> is), a report whose two fields parse
  overwrites \<open>xPos\<close> and \<open>zPos\<close> with the parsed values; when only the X field parses,
  \<open>xPos\<close> alone is overwritten; when the X field does not parse, or the report has no
  \<open>Z:\<close>, nothing changes. Otherwise the line \<open>ok\<close> makes exactly the listed transition:
  \<open>homingX\<close> to \<open>xHomed\<close>; \<open>homingZ\<close> to \<open>idle\<close>; \<open>zMoveStarted\<close> sends \<open>M400\<close> and goes to
  \<open>zMoveWaitForComplete1\<close>; \<open>zMoveWaitForComplete1\<close> goes to \<open>zMoveWaitForComplete2\<close> and
  clears the flag when the flag is set, and to \<open>idle\<close> when it is clear;
  \<open>zMoveWaitForComplete2\<close> to \<open>idle\<close>; \<open>moveStarted\<close> sends \<open>M400\<close> and goes to
  \<open>moveWaitForComplete\<close>; \<open>moveWaitForComplete\<close> to \<open>moveCompleted\<close>; \<open>getPosition\<close> to
  \<open>idle\<close>. Every other combination of state and line changes nothing. (Sending is
  \<open>sendGCode\<close>, which puts the line on the wire of an open port.)
\<close>

theorem handleResponse_dispatch_table:
  "(starts_with ''X:'' line \<longrightarrow>
      (\<exists>x z. handleResponse stod line m = m\<lparr>xPos := x, zPos := z\<rparr>)
      \<and> marlinState (handleResponse stod line m) = marlinState m)
   \<and> (starts_with ''X:'' line \<and> length line < npos
        \<and> spec_field ''X:'' line = Some xs \<and> spec_field ''Z:'' line = Some zs \<longrightarrow>
        (stod xs = Some x \<and> stod zs = Some z \<longrightarrow>
           handleResponse stod line m = m\<lparr>xPos := x, zPos := z\<rparr>)
        \<and> (stod xs = Some x \<and> stod zs = None \<longrightarrow>
             handleResponse stod line m = m\<lparr>xPos := x\<rparr>)
        \<and> (stod xs = None \<longrightarrow> handleResponse stod line m = m))
   \<and> (starts_with ''X:'' line \<and> spec_field ''Z:'' line = None \<longrightarrow>
        handleResponse stod line m = m)
   \<and> (marlinState m = homingX \<longrightarrow> handleResponse stod ''ok'' m = m\<lparr>marlinState := xHomed\<rparr>)
   \<and> (marlinState m = homingZ \<longrightarrow> handleResponse stod ''ok'' m = m\<lparr>marlinState := idle\<rparr>)
   \<and> (marlinState m = zMoveStarted \<longrightarrow>
        handleResponse stod ''ok'' m
          = (sendGCode ''M400'' m)\<lparr>marlinState := zMoveWaitForComplete1\<rparr>
        \<and> (isConnected m \<longrightarrow> wire (handleResponse stod ''ok'' m) = wire m @ [''M400'']))
   \<and> (marlinState m = zMoveWaitForComplete1 \<and> burnExtraOK m \<longrightarrow>
        handleResponse stod ''ok'' m
          = m\<lparr>burnExtraOK := False, marlinState := zMoveWaitForComplete2\<rparr>)
   \<and> (marlinState m = zMoveWaitForComplete1 \<and> \<not> burnExtraOK m \<longrightarrow>
        handleResponse stod ''ok'' m = m\<lparr>marlinState := idle\<rparr>)
   \<and> (marlinState m = zMoveWaitForComplete2 \<longrightarrow>
        handleResponse stod ''ok'' m = m\<lparr>marlinState := idle\<rparr>)
   \<and> (marlinState m = moveStarted \<longrightarrow>
        handleResponse stod ''ok'' m
          = (sendGCode ''M400'' m)\<lparr>marlinState := moveWaitForComplete\<rparr>
        \<and> (isConnected m \<longrightarrow> wire (handleResponse stod ''ok'' m) = wire m @ [''M400'']))
   \<and> (marlinState m = moveWaitForComplete \<longrightarrow>
        handleResponse stod ''ok'' m = m\<lparr>marlinState := moveCompleted\<rparr>)
   \<and> (marlinState m = getPosition \<longrightarrow> handleResponse stod ''ok'' m = m\<lparr>marlinState := idle\<rparr>)
   \<and> (\<not> starts_with ''X:'' line
        \<and> (line \<noteq> ''ok''
           \<or> marlinState m \<in> {disconnected, idle, zMoveCompleted, xHomed, moveCompleted}) \<longrightarrow>
        handleResponse stod line m = m)"
proof -
  have report: "starts_with ''X:'' line \<Longrightarrow>
      (\<exists>x z. handleResponse stod line m = m\<lparr>xPos := x, zPos := z\<rparr>)
      \<and> marlinState (handleResponse stod line m) = marlinState m"
  proof -
    assume p: "starts_with ''X:'' line"
    from report_frame [OF p, of stod m] obtain x z
      where "handleResponse stod line m = m\<lparr>xPos := x, zPos := z\<rparr>" by blast
    then show ?thesis by auto
  qed
  have parsed: "starts_with ''X:'' line \<and> length line < npos
        \<and> spec_field ''X:'' line = Some xs \<and> spec_field ''Z:'' line = Some zs \<Longrightarrow>
        (stod xs = Some x \<and> stod zs = Some z \<longrightarrow>
           handleResponse stod line m = m\<lparr>xPos := x, zPos := z\<rparr>)
        \<and> (stod xs = Some x \<and> stod zs = None \<longrightarrow>
             handleResponse stod line m = m\<lparr>xPos := x\<rparr>)
        \<and> (stod xs = None \<longrightarrow> handleResponse stod line m = m)"
    using report_overwrites [of line xs zs stod x z m] report_unparsed_z [of line xs zs stod x m]
      report_unparsed_x [of line xs zs stod m]
    by (simp add: handleResponse_def report_prefix)
  have unmarked: "starts_with ''X:'' line \<and> spec_field ''Z:'' line = None \<Longrightarrow>
        handleResponse stod line m = m"
    using report_no_marker [of line stod m] by (simp add: handleResponse_def report_prefix)
  have rest: "\<not> starts_with ''X:'' line
        \<and> (line \<noteq> ''ok''
           \<or> marlinState m \<in> {disconnected, idle, zMoveCompleted, xHomed, moveCompleted}) \<Longrightarrow>
        handleResponse stod line m = m"
    using other_line_ignored [of line stod m] other_state_ignored [of m line stod] by blast
  have acks:
    "marlinState m = homingX \<Longrightarrow> handleResponse stod ''ok'' m = m\<lparr>marlinState := xHomed\<rparr>"
    "marlinState m = homingZ \<Longrightarrow> handleResponse stod ''ok'' m = m\<lparr>marlinState := idle\<rparr>"
    "marlinState m = zMoveStarted \<Longrightarrow>
       handleResponse stod ''ok'' m = (sendGCode ''M400'' m)\<lparr>marlinState := zMoveWaitForComplete1\<rparr>"
    "marlinState m = zMoveWaitForComplete1 \<and> burnExtraOK m \<Longrightarrow>
       handleResponse stod ''ok'' m = m\<lparr>burnExtraOK := False, marlinState := zMoveWaitForComplete2\<rparr>"
    "marlinState m = zMoveWaitForComplete1 \<and> \<not> burnExtraOK m \<Longrightarrow>
       handleResponse stod ''ok'' m = m\<lparr>marlinState := idle\<rparr>"
    "marlinState m = zMoveWaitForComplete2 \<Longrightarrow>
       handleResponse stod ''ok'' m = m\<lparr>marlinState := idle\<rparr>"
    "marlinState m = moveStarted \<Longrightarrow>
       handleResponse stod ''ok'' m = (sendGCode ''M400'' m)\<lparr>marlinState := moveWaitForComplete\<rparr>"
    "marlinState m = moveWaitForComplete \<Longrightarrow>
       handleResponse stod ''ok'' m = m\<lparr>marlinState := moveCompleted\<rparr>"
    "marlinState m = getPosition \<Longrightarrow> handleResponse stod ''ok'' m = m\<lparr>marlinState := idle\<rparr>"
    by (simp_all add: ok_dispatch)
  have sent: "\<And>st. isConnected m \<Longrightarrow>
      wire ((sendGCode ''M400'' m)\<lparr>marlinState := st\<rparr>) = wire m @ [''M400'']"
    by (simp add: sendGCode_wire)
  from report parsed unmarked rest acks sent show ?thesis by simp
qed

theorem handleResponse_dispatch_table_witness:
  "handleResponse stod_decimal ''ok'' ((MarlinController 3)\<lparr>marlinState := zMoveStarted\<rparr>)
     = \<lparr>marlinState = zMoveWaitForComplete1, xPos = 0, zPos = 0, burnExtraOK = False,
        marlinPort = 3, wire = [''G90'', ''M400'']\<rparr>
   \<and> handleResponse stod_decimal ''echo:busy: processing''
       ((MarlinController 3)\<lparr>marlinState := zMoveStarted\<rparr>)
     = (MarlinController 3)\<lparr>marlinState := zMoveStarted\<rparr>
   \<and> handleResponse stod_decimal ''X:1.50 Y:370.00 Z:2.25 E:0.00''
       ((MarlinController 3)\<lparr>marlinState := zMoveStarted\<rparr>)
     = \<lparr>marlinState = zMoveStarted, xPos = 3 / 2, zPos = 9 / 4, burnExtraOK = False,
        marlinPort = 3, wire = [''G90'']\<rparr>
   \<and> handleResponse stod_decimal ''X:7 Z:up'' ((MarlinController 3)\<lparr>marlinState := idle\<rparr>)
     = \<lparr>marlinState = idle, xPos = 7, zPos = 0, burnExtraOK = False,
        marlinPort = 3, wire = [''G90'']\<rparr>
   \<and> handleResponse stod_decimal ''X:1.50 Y:370.00'' ((MarlinController 3)\<lparr>xPos := 4\<rparr>)
     = (MarlinController 3)\<lparr>xPos := 4\<rparr>"
proof -
  have f: "spec_field ''X:'' ''X:1.50 Y:370.00 Z:2.25 E:0.00'' = Some ''1.50''"
    "spec_field ''Z:'' ''X:1.50 Y:370.00 Z:2.25 E:0.00'' = Some ''2.25''"
    "spec_field ''X:'' ''X:7 Z:up'' = Some ''7''" "spec_field ''Z:'' ''X:7 Z:up'' = Some ''up''"
    "spec_field ''Z:'' ''X:1.50 Y:370.00'' = None"
    by (simp_all add: spec_field_def)
  have p: "stod_decimal ''1.50'' = Some (3 / 2)" "stod_decimal ''2.25'' = Some (9 / 4)"
    "stod_decimal ''7'' = Some 7" "stod_decimal ''up'' = None"
    by (simp_all add: stod_decimal_def isspace_def isdigit_def decimal_def Let_def)
  show ?thesis
    using handleResponse_dispatch_table
            [where line = "''echo:busy: processing''" and stod = stod_decimal
               and m = "(MarlinController 3)\<lparr>marlinState := zMoveStarted\<rparr>"]
          handleResponse_dispatch_table
            [where line = "''X:1.50 Y:370.00 Z:2.25 E:0.00''" and stod = stod_decimal
               and xs = "''1.50''" and zs = "''2.25''" and x = "3 / 2" and z = "9 / 4"
               and m = "(MarlinController 3)\<lparr>marlinState := zMoveStarted\<rparr>"]
          handleResponse_dispatch_table
            [where line = "''X:7 Z:up''" and stod = stod_decimal
               and xs = "''7''" and zs = "''up''" and x = 7
               and m = "(MarlinController 3)\<lparr>marlinState := idle\<rparr>"]
          handleResponse_dispatch_table
            [where line = "''X:1.50 Y:370.00''" and stod = stod_decimal
               and m = "(MarlinController 3)\<lparr>xPos := 4\<rparr>"]
    by (simp add: f p npos_def MarlinController_def sendGCode_def isConnected_def)
qed



text \<open>
  C3, as amended. Abort. With a sequence running (\<open>operationRunning\<close>), from any phase,
  \<open>abortOperation\<close> clears the nine latches, sets the phase \<open>idle\<close> and the protocol state
  \<open>idle\<close>, sends \<open>M112\<close> and then the two fan lines with duty 0, and saves the snapshot (the
  file holds the snapshot of the state it returns). With no sequence running it changes
  nothing. So a second abort changes nothing either: abort is idempotent, and the abort of
  a running sequence, however often it is repeated, ends with both states \<open>idle\<close>. The
  claim as written has every abort end with both states \<open>idle\<close>; an abort with no sequence
  running leaves them as they are, for instance the protocol state \<open>xHomed\<close> after the
  menu's ``Home X'', or the phase \<open>initial_z_homing\<close> during startup.
\<close>

theorem abortOperation_contract:
  "(operationRunning s \<longrightarrow>
      \<not> phase1_started (abortOperation s) \<and> \<not> phase2_started (abortOperation s)
      \<and> \<not> phase3_started (abortOperation s) \<and> \<not> phase4_started (abortOperation s)
      \<and> \<not> phase5_started (abortOperation s) \<and> \<not> phase6_started (abortOperation s)
      \<and> \<not> phase7_started (abortOperation s) \<and> \<not> phase8_started (abortOperation s)
      \<and> \<not> phase9_started (abortOperation s)
      \<and> machineState (abortOperation s) = idle_machine
      \<and> marlinState (marlin (abortOperation s)) = idle
      \<and> marlin (abortOperation s)
          = setState idle (setFanSpeed 1 0 (setFanSpeed 0 0 (sendGCode ''M112'' (marlin s))))
      \<and> (isConnected (marlin s) \<longrightarrow>
           wire (marlin (abortOperation s))
             = wire (marlin s) @ [''M112'', ''M106 P0 S0'', ''M106 P1 S0''])
      \<and> \<not> operationRunning (abortOperation s)
      \<and> saveStateToJSON (abortOperation s) = abortOperation s
      \<and> (\<exists>snap. json_file (abortOperation s) = Some snap
            \<and> json_machine_state snap = ''idle'' \<and> json_marlin_state snap = ''idle'')
      \<and> machineState ((abortOperation ^^ Suc n) s) = idle_machine
      \<and> marlinState (marlin ((abortOperation ^^ Suc n) s)) = idle)
   \<and> (\<not> operationRunning s \<longrightarrow> abortOperation s = s)
   \<and> abortOperation (abortOperation s) = abortOperation s"
proof -
  have again: "(abortOperation ^^ Suc n) s = abortOperation s"
    by (induction n) (simp_all add: abort_twice)
  have running: "operationRunning s \<Longrightarrow> ?thesis"
  proof -
    assume r: "operationRunning s"
    note eq = abort_active [OF r]
    have fields:
      "\<not> phase1_started (abortOperation s)" "\<not> phase2_started (abortOperation s)"
      "\<not> phase3_started (abortOperation s)" "\<not> phase4_started (abortOperation s)"
      "\<not> phase5_started (abortOperation s)" "\<not> phase6_started (abortOperation s)"
      "\<not> phase7_started (abortOperation s)" "\<not> phase8_started (abortOperation s)"
      "\<not> phase9_started (abortOperation s)"
      "machineState (abortOperation s) = idle_machine"
      "\<not> operationRunning (abortOperation s)"
      "marlin (abortOperation s)
         = setState idle (setFanSpeed 1 0 (setFanSpeed 0 0 (sendGCode ''M112'' (marlin s))))"
      by (simp_all add: eq resetAllPhases_eq saveStateToJSON_def)
    have st: "marlinState (marlin (abortOperation s)) = idle"
      by (simp add: fields setState_def)
    have w: "isConnected (marlin s) \<Longrightarrow>
           wire (marlin (abortOperation s))
             = wire (marlin s) @ [''M112'', ''M106 P0 S0'', ''M106 P1 S0'']"
      by (simp add: fields abort_wire)
    have saved: "saveStateToJSON (abortOperation s) = abortOperation s"
      by (simp add: eq saveStateToJSON_def resetAllPhases_eq)
    have snap: "\<exists>snap. json_file (abortOperation s) = Some snap
            \<and> json_machine_state snap = ''idle'' \<and> json_marlin_state snap = ''idle''"
      by (simp add: eq saveStateToJSON_def resetAllPhases_eq setState_def getState_def)
    from fields st w saved snap again abort_twice [of s] r show ?thesis by simp
  qed
  have stopped: "\<not> operationRunning s \<Longrightarrow> ?thesis"
    by (simp add: abortOperation_def)
  from running stopped show ?thesis by blast
qed

theorem abortOperation_contract_witness:
  "machineState (dispenseFoodStart (feeder_initial\<lparr>cansLoaded := 2\<rparr>)) = phase1_x_homing
   \<and> machineState (abortOperation (dispenseFoodStart (feeder_initial\<lparr>cansLoaded := 2\<rparr>)))
       = idle_machine
   \<and> marlinState (marlin (abortOperation (dispenseFoodStart (feeder_initial\<lparr>cansLoaded := 2\<rparr>))))
       = idle
   \<and> wire (marlin (abortOperation (dispenseFoodStart (feeder_initial\<lparr>cansLoaded := 2\<rparr>))))
       = [''G90'', ''M106 P0 S255'', ''M106 P1 S255'', ''G28 X'',
          ''M112'', ''M106 P0 S0'', ''M106 P1 S0'']
   \<and> \<not> phase1_started (abortOperation (dispenseFoodStart (feeder_initial\<lparr>cansLoaded := 2\<rparr>)))
   \<and> abortOperation feeder_initial = feeder_initial"
proof -
  have start:
    "operationRunning (dispenseFoodStart (feeder_initial\<lparr>cansLoaded := 2\<rparr>))"
    "machineState (dispenseFoodStart (feeder_initial\<lparr>cansLoaded := 2\<rparr>)) = phase1_x_homing"
    "isConnected (marlin (dispenseFoodStart (feeder_initial\<lparr>cansLoaded := 2\<rparr>)))"
    "wire (marlin (dispenseFoodStart (feeder_initial\<lparr>cansLoaded := 2\<rparr>)))
       = [''G90'', ''M106 P0 S255'', ''M106 P1 S255'', ''G28 X'']"
    by (simp_all add: dispenseFoodStart_def phase_defs resetAllPhases_eq saveStateToJSON_def
          feeder_initial_def MarlinController_def setFanSpeed_def cdiv_def to_string_def
          digits.simps sendGCode_def isConnected_def homeX_def)
  have rest: "\<not> operationRunning feeder_initial"
    by (simp add: feeder_initial_def)
  from start rest
    abortOperation_contract
      [where s = "dispenseFoodStart (feeder_initial\<lparr>cansLoaded := 2\<rparr>)" and n = 0]
    abortOperation_contract [where s = feeder_initial and n = 0]
  show ?thesis by (simp add: abort_wire setState_state)
qed

theorem abort_without_sequence_counterexample:
  "\<not> operationRunning
       (feeder_initial\<lparr>marlin := handleResponse stod_decimal ''ok'' (homeX (MarlinController 3))\<rparr>)
   \<and> marlinState (marlin (abortOperation
       (feeder_initial\<lparr>marlin := handleResponse stod_decimal ''ok'' (homeX (MarlinController 3))\<rparr>)))
       = xHomed
   \<and> machineState (abortOperation (feeder_initial\<lparr>machineState := initial_z_homing\<rparr>))
       = initial_z_homing"
  by (simp add: abortOperation_def feeder_initial_def ok_dispatch homeX_def MarlinController_def
        sendGCode_def isConnected_def)

text \<open>
  C4. In \<open>zMoveWaitForComplete1\<close> with \<open>burnExtraOK\<close> set, the first \<open>ok\<close> clears the flag and
  leads to \<open>zMoveWaitForComplete2\<close>, and the second \<open>ok\<close> leads to \<open>idle\<close>: exactly one extra
  \<open>ok\<close> is consumed, and a third one finds the flag clear and the state \<open>idle\<close> and changes
  nothing. With the flag clear, a single \<open>ok\<close> in \<open>zMoveWaitForComplete1\<close> leads to \<open>idle\<close>
  at once.
\<close>

theorem extra_ack_consumed_once:
  "handleResponse stod ''ok'' (m\<lparr>marlinState := zMoveWaitForComplete1, burnExtraOK := True\<rparr>)
     = m\<lparr>marlinState := zMoveWaitForComplete2, burnExtraOK := False\<rparr>
   \<and> handleResponses stod [''ok'', ''ok'']
       (m\<lparr>marlinState := zMoveWaitForComplete1, burnExtraOK := True\<rparr>)
     = m\<lparr>marlinState := idle, burnExtraOK := False\<rparr>
   \<and> handleResponses stod [''ok'', ''ok'', ''ok'']
       (m\<lparr>marlinState := zMoveWaitForComplete1, burnExtraOK := True\<rparr>)
     = m\<lparr>marlinState := idle, burnExtraOK := False\<rparr>
   \<and> handleResponse stod ''ok'' (m\<lparr>marlinState := zMoveWaitForComplete1, burnExtraOK := False\<rparr>)
     = m\<lparr>marlinState := idle, burnExtraOK := False\<rparr>"
  by (simp add: handleResponse_def ok_is_no_report)

text \<open>
  C5, as amended. On a pass of the control loop with no operation running, the phase
  \<open>idle\<close>, the startup sequence completed, \<open>feedTime\<close> positive and the clock at or past
  \<open>feedTime\<close>, the feed time is advanced and saved first, and \<open>dispenseFoodStart\<close> runs on
  the state that already holds the new time \<open>v\<close>: the old time plus 24 hours in daily mode,
  and in interval mode the clock plus \<open>feedGap * 3600\<close>, computed in \<open>double\<close> arithmetic and
  cut to whole seconds (the clock plus \<open>g\<close> when \<open>feedGap * 3600\<close> is the whole number \<open>g\<close> and
  the sum is below \<open>2 ^ 53\<close>). The file written before the dispense holds \<open>v\<close>, and so do the
  state and the file after it. When a can is loaded the dispense starts, \<open>operationRunning\<close>
  is set, and the check does nothing on any later pass while it stays set; with no can
  loaded the time is advanced and saved and nothing starts. When the interval sum does not
  fit the \<open>time_t\<close> the assignment is undefined. The claim as written asks for this
  whenever \<open>feedTime\<close> is not zero; the source tests \<open>feedTime > 0\<close>, and a negative
  \<open>feedTime\<close> triggers nothing.
\<close>

theorem scheduled_feed_advances_first:
  "(\<not> operationRunning s \<and> machineState s = idle_machine \<and> startupSequenceComplete s
     \<and> 0 < feedTime s \<and> feedTime s \<le> currentTime
     \<and> (if scheduleMode s = DAILY_MODE then Some (feedTime s + 24 * 3600)
         else interval_feed_time currentTime (feedGap s)) = Some v \<longrightarrow>
     main_scheduled_feed_check currentTime s
       = Some (dispenseFoodStart (saveStateToJSON (s\<lparr>feedTime := v\<rparr>)))
     \<and> json_file (saveStateToJSON (s\<lparr>feedTime := v\<rparr>)) = Some
         \<lparr>json_machine_state = ''idle'',
          json_marlin_state = marlinStateToString (getState (marlin s)),
          json_x_position = xPos (marlin s),
          json_z_position = zPos (marlin s),
          json_cans_loaded = cansLoaded s,
          json_eject_last = ejectLast s,
          json_feed_gap = feedGap s,
          json_feed_time = v,
          json_schedule_mode =
            (if scheduleMode s = INTERVAL_MODE then ''INTERVAL'' else ''DAILY''),
          json_daily_feed_hour = dailyFeedHour s,
          json_daily_feed_minute = dailyFeedMinute s\<rparr>
     \<and> feedTime (dispenseFoodStart (saveStateToJSON (s\<lparr>feedTime := v\<rparr>))) = v
     \<and> (\<exists>snap. json_file (dispenseFoodStart (saveStateToJSON (s\<lparr>feedTime := v\<rparr>))) = Some snap
           \<and> json_feed_time snap = v)
     \<and> (1 \<le> cansLoaded s \<longrightarrow>
          operationRunning (dispenseFoodStart (saveStateToJSON (s\<lparr>feedTime := v\<rparr>)))
          \<and> machineState (dispenseFoodStart (saveStateToJSON (s\<lparr>feedTime := v\<rparr>)))
              = phase1_x_homing
          \<and> (\<forall>later.
                main_scheduled_feed_check later
                  (dispenseFoodStart (saveStateToJSON (s\<lparr>feedTime := v\<rparr>)))
                = Some (dispenseFoodStart (saveStateToJSON (s\<lparr>feedTime := v\<rparr>)))))
     \<and> (cansLoaded s < 1 \<longrightarrow>
          dispenseFoodStart (saveStateToJSON (s\<lparr>feedTime := v\<rparr>))
            = saveStateToJSON (s\<lparr>feedTime := v\<rparr>)
          \<and> \<not> operationRunning (saveStateToJSON (s\<lparr>feedTime := v\<rparr>))
          \<and> machineState (saveStateToJSON (s\<lparr>feedTime := v\<rparr>)) = idle_machine))
   \<and> (\<not> operationRunning s \<and> machineState s = idle_machine \<and> startupSequenceComplete s
        \<and> 0 < feedTime s \<and> feedTime s \<le> currentTime \<and> scheduleMode s \<noteq> DAILY_MODE
        \<and> interval_feed_time currentTime (feedGap s) = None \<longrightarrow>
        main_scheduled_feed_check currentTime s = None)
   \<and> (feedGap s * 3600 = real_of_int g \<and> 0 \<le> g \<and> 0 \<le> currentTime \<and> currentTime + g < 2 ^ 53 \<longrightarrow>
        interval_feed_time currentTime (feedGap s) = Some (currentTime + g))"
proof -
  let ?new = "(if scheduleMode s = DAILY_MODE then Some (feedTime s + 24 * 3600)
               else interval_feed_time currentTime (feedGap s))"
  let ?s1 = "saveStateToJSON (s\<lparr>feedTime := v\<rparr>)"
  have due: "\<not> operationRunning s \<and> machineState s = idle_machine \<and> startupSequenceComplete s
     \<and> 0 < feedTime s \<and> feedTime s \<le> currentTime \<and> ?new = Some v \<Longrightarrow>
     main_scheduled_feed_check currentTime s = Some (dispenseFoodStart ?s1)"
    by (simp add: main_scheduled_feed_check_def)
  have saved: "machineState s = idle_machine \<Longrightarrow> json_file ?s1 = Some
         \<lparr>json_machine_state = ''idle'',
          json_marlin_state = marlinStateToString (getState (marlin s)),
          json_x_position = xPos (marlin s),
          json_z_position = zPos (marlin s),
          json_cans_loaded = cansLoaded s,
          json_eject_last = ejectLast s,
          json_feed_gap = feedGap s,
          json_feed_time = v,
          json_schedule_mode =
            (if scheduleMode s = INTERVAL_MODE then ''INTERVAL'' else ''DAILY''),
          json_daily_feed_hour = dailyFeedHour s,
          json_daily_feed_minute = dailyFeedMinute s\<rparr>"
    by (simp add: saveStateToJSON_def)
  have ft: "feedTime (dispenseFoodStart ?s1) = v"
    by (simp only: dispenseFoodStart_feedTime) (simp add: saveStateToJSON_def)
  have written: "\<exists>snap. json_file (dispenseFoodStart ?s1) = Some snap \<and> json_feed_time snap = v"
    by (simp add: dispenseFoodStart_def phase_defs resetAllPhases_eq saveStateToJSON_def)
  have running: "1 \<le> cansLoaded s \<Longrightarrow> operationRunning (dispenseFoodStart ?s1)"
    by (rule dispenseFoodStart_running) (simp add: saveStateToJSON_def)
  have phase: "1 \<le> cansLoaded s \<Longrightarrow> machineState (dispenseFoodStart ?s1) = phase1_x_homing"
    by (simp add: dispenseFoodStart_def phase_defs resetAllPhases_eq saveStateToJSON_def)
  have quiet: "\<And>later. 1 \<le> cansLoaded s \<Longrightarrow>
      main_scheduled_feed_check later (dispenseFoodStart ?s1) = Some (dispenseFoodStart ?s1)"
    using running by (simp add: main_scheduled_feed_check_def [of _ "dispenseFoodStart ?s1"])
  have empty: "cansLoaded s < 1 \<Longrightarrow> dispenseFoodStart ?s1 = ?s1"
    by (simp add: dispenseFoodStart_def saveStateToJSON_def)
  have stays: "\<not> operationRunning s \<and> machineState s = idle_machine \<Longrightarrow>
      \<not> operationRunning ?s1 \<and> machineState ?s1 = idle_machine"
    by (simp add: saveStateToJSON_def)
  have undefined_sum:
    "\<not> operationRunning s \<and> machineState s = idle_machine \<and> startupSequenceComplete s
        \<and> 0 < feedTime s \<and> feedTime s \<le> currentTime \<and> scheduleMode s \<noteq> DAILY_MODE
        \<and> interval_feed_time currentTime (feedGap s) = None \<Longrightarrow>
        main_scheduled_feed_check currentTime s = None"
    by (simp add: main_scheduled_feed_check_def)
  have whole:
    "feedGap s * 3600 = real_of_int g \<and> 0 \<le> g \<and> 0 \<le> currentTime \<and> currentTime + g < 2 ^ 53 \<Longrightarrow>
        interval_feed_time currentTime (feedGap s) = Some (currentTime + g)"
    using interval_exact [of "feedGap s" g currentTime] by blast
  from due saved ft written running phase quiet empty stays undefined_sum whole
  show ?thesis by blast
qed

theorem scheduled_feed_advances_first_witness:
  "main_scheduled_feed_check 25200
      (feeder_initial\<lparr>cansLoaded := 2, feedTime := 23400, startupSequenceComplete := True\<rparr>)
     = Some (dispenseFoodStart (saveStateToJSON
         (feeder_initial\<lparr>cansLoaded := 2, feedTime := 54000, startupSequenceComplete := True\<rparr>)))
   \<and> operationRunning (dispenseFoodStart (saveStateToJSON
         (feeder_initial\<lparr>cansLoaded := 2, feedTime := 54000, startupSequenceComplete := True\<rparr>)))
   \<and> feedTime (dispenseFoodStart (saveStateToJSON
         (feeder_initial\<lparr>cansLoaded := 2, feedTime := 54000, startupSequenceComplete := True\<rparr>)))
       = 54000
   \<and> main_scheduled_feed_check 25200
      (feeder_initial\<lparr>cansLoaded := 2, feedTime := 23400, startupSequenceComplete := True,
         scheduleMode := DAILY_MODE\<rparr>)
     = Some (dispenseFoodStart (saveStateToJSON
         (feeder_initial\<lparr>cansLoaded := 2, feedTime := 109800, startupSequenceComplete := True,
            scheduleMode := DAILY_MODE\<rparr>)))
   \<and> main_scheduled_feed_check 25200
      (feeder_initial\<lparr>feedTime := 23400, startupSequenceComplete := True\<rparr>)
     = Some (saveStateToJSON
         (feeder_initial\<lparr>feedTime := 54000, startupSequenceComplete := True\<rparr>))"
  using scheduled_feed_advances_first
          [where currentTime = 25200 and g = 28800 and v = 54000
             and s = "feeder_initial\<lparr>cansLoaded := 2, feedTime := 23400,
                        startupSequenceComplete := True\<rparr>"]
        scheduled_feed_advances_first
          [where currentTime = 25200 and g = 28800 and v = 109800
             and s = "feeder_initial\<lparr>cansLoaded := 2, feedTime := 23400,
                        startupSequenceComplete := True, scheduleMode := DAILY_MODE\<rparr>"]
        scheduled_feed_advances_first
          [where currentTime = 25200 and g = 28800 and v = 54000
             and s = "feeder_initial\<lparr>feedTime := 23400, startupSequenceComplete := True\<rparr>"]
  by (simp add: feeder_initial_def interval_feed_time_8h)

theorem scheduled_feed_negative_time_counterexample:
  "\<not> operationRunning
       (feeder_initial\<lparr>cansLoaded := 2, feedTime := - 1, startupSequenceComplete := True\<rparr>)
   \<and> machineState
       (feeder_initial\<lparr>cansLoaded := 2, feedTime := - 1, startupSequenceComplete := True\<rparr>)
       = idle_machine
   \<and> startupSequenceComplete
       (feeder_initial\<lparr>cansLoaded := 2, feedTime := - 1, startupSequenceComplete := True\<rparr>)
   \<and> feedTime
       (feeder_initial\<lparr>cansLoaded := 2, feedTime := - 1, startupSequenceComplete := True\<rparr>) \<noteq> 0
   \<and> feedTime
       (feeder_initial\<lparr>cansLoaded := 2, feedTime := - 1, startupSequenceComplete := True\<rparr>)
       \<le> 1000
   \<and> main_scheduled_feed_check 1000
       (feeder_initial\<lparr>cansLoaded := 2, feedTime := - 1, startupSequenceComplete := True\<rparr>)
       = Some (feeder_initial\<lparr>cansLoaded := 2, feedTime := - 1, startupSequenceComplete := True\<rparr>)
   \<and> \<not> operationRunning
       (feeder_initial\<lparr>feedTime := 23400, startupSequenceComplete := True\<rparr>)
   \<and> machineState (feeder_initial\<lparr>feedTime := 23400, startupSequenceComplete := True\<rparr>)
       = idle_machine
   \<and> startupSequenceComplete
       (feeder_initial\<lparr>feedTime := 23400, startupSequenceComplete := True\<rparr>)
   \<and> feedTime (feeder_initial\<lparr>feedTime := 23400, startupSequenceComplete := True\<rparr>) \<noteq> 0
   \<and> feedTime (feeder_initial\<lparr>feedTime := 23400, startupSequenceComplete := True\<rparr>) \<le> 25200
   \<and> main_scheduled_feed_check 25200
       (feeder_initial\<lparr>feedTime := 23400, startupSequenceComplete := True\<rparr>)
       = Some (saveStateToJSON
           (feeder_initial\<lparr>feedTime := 54000, startupSequenceComplete := True\<rparr>))
   \<and> \<not> operationRunning (saveStateToJSON
           (feeder_initial\<lparr>feedTime := 54000, startupSequenceComplete := True\<rparr>))
   \<and> machineState (saveStateToJSON
           (feeder_initial\<lparr>feedTime := 54000, startupSequenceComplete := True\<rparr>))
       = idle_machine
   \<and> main_scheduled_feed_check 1000
       (feeder_initial\<lparr>cansLoaded := 2, feedTime := 900, startupSequenceComplete := True,
          feedGap := 1000000000000000000\<rparr>)
       = None"
  by (simp add: main_scheduled_feed_check_def feeder_initial_def interval_feed_time_8h
        interval_feed_time_out_of_range dispenseFoodStart_def saveStateToJSON_def)







text \<open>
  C8, as amended. \<open>setFanSpeed\<close> clamps the percentage into 0..100 and sends the line
  \<open>M106 P<fan> S<duty>\<close>, where the duty is the integer quotient of \<open>percent * 255\<close> by 100,
  that is the quotient rounded down, between 0 and 255; it leaves the protocol state as it
  was. \<open>setFanSpeed(0, 50)\<close> sends the duty 127. The claim as written rounds to the nearest
  value and has 128 there.
\<close>

theorem setFanSpeed_duty:
  "setFanSpeed fan pct m
     = sendGCode (''M106 P'' @ to_string fan @ '' S''
                  @ to_string ((max 0 (min 100 pct) * 255) div 100)) m
   \<and> (max 0 (min 100 pct) * 255) div 100 = \<lfloor>real_of_int (max 0 (min 100 pct)) * 255 / 100\<rfloor>
   \<and> 0 \<le> (max 0 (min 100 pct) * 255) div 100
   \<and> (max 0 (min 100 pct) * 255) div 100 \<le> 255
   \<and> marlinState (setFanSpeed fan pct m) = marlinState m
   \<and> (isConnected m \<longrightarrow>
        wire (setFanSpeed fan pct m)
          = wire m @ [''M106 P'' @ to_string fan @ '' S''
                      @ to_string ((max 0 (min 100 pct) * 255) div 100)])
   \<and> setFanSpeed 0 50 m = sendGCode ''M106 P0 S127'' m"
proof -
  have fifty: "setFanSpeed 0 50 m = sendGCode ''M106 P0 S127'' m"
    by (simp add: setFanSpeed_line to_string_def digits.simps)
  from setFanSpeed_line [of fan pct m] duty_is_floor [of pct] duty_range [of pct] fifty
  show ?thesis
    by (simp add: sendGCode_wire sendGCode_state)
qed

theorem setFanSpeed_duty_witness:
  "wire (setFanSpeed 0 50 (MarlinController 3)) = [''G90'', ''M106 P0 S127'']
   \<and> wire (setFanSpeed 1 250 (MarlinController 3)) = [''G90'', ''M106 P1 S255'']
   \<and> wire (setFanSpeed 1 (- 4) (MarlinController 3)) = [''G90'', ''M106 P1 S0'']"
  using setFanSpeed_duty [where fan = 0 and pct = 50 and m = "MarlinController 3"]
        setFanSpeed_duty [where fan = 1 and pct = 250 and m = "MarlinController 3"]
        setFanSpeed_duty [where fan = 1 and pct = "- 4" and m = "MarlinController 3"]
  by (simp add: MarlinController_def sendGCode_def isConnected_def to_string_def digits.simps)

theorem fan_duty_50_counterexample:
  "wire (setFanSpeed 0 50 (MarlinController 3)) = [''G90'', ''M106 P0 S127'']
   \<and> wire (setFanSpeed 0 50 (MarlinController 3)) \<noteq> [''G90'', ''M106 P0 S128'']
   \<and> round ((50::real) * 255 / 100) = (128::int)"
  by (simp add: setFanSpeed_def cdiv_def to_string_def digits.simps sendGCode_def
        isConnected_def MarlinController_def round_def)

text \<open>
  C9. A position report is meant to overwrite both axes or none. The source assigns
  \<open>xPos\<close> before it parses the value of the Z axis, so a report whose X value parses and
  whose Z value does not leaves \<open>xPos\<close> changed and \<open>zPos\<close> as it was: on the line
  \<open>X:1.5 Z:\<close> the controller at (10, 20) ends at (1.5, 20).
\<close>

theorem position_report_partial_update:
  "handleResponse stod_decimal ''X:1.5 Z:'' ((MarlinController 3)\<lparr>xPos := 10, zPos := 20\<rparr>)
     = (MarlinController 3)\<lparr>xPos := 3 / 2, zPos := 20\<rparr>"
  by (simp add: handleResponse_def extractPosition_def find_str_def find_chr_def npos_def
        substr_def size_sub_def stod_decimal_def isspace_def isdigit_def decimal_def
        MarlinController_def)



end
